theory Spec2Isabelle
  imports Complex_Main
begin

section \<open>Numbers, errors and rendered values\<close>

text \<open>
  The calculators are Streamlit scripts: \<^verbatim>\<open>app.py\<close>, \<^verbatim>\<open>calculator.py\<close> and
  \<^verbatim>\<open>LTV_Calculator_Project/calculator.py\<close>. Their numbers are Python floats (and ints for
  the customer counts and the sliders). Floats are read here as exact reals: the model
  follows the branches and the formulas of the scripts. Binary rounding is left out
  except for the one property it decides, the comparison of the two ratios of tab 5, for
  which the roundings of binary64 are modelled in a section of their own.
  Python's \<^verbatim>\<open>/\<close> raises \<^verbatim>\<open>ZeroDivisionError\<close> on a zero divisor, and reading an attribute
  of the session state that was never set raises \<^verbatim>\<open>AttributeError\<close>; both are values of
  the model.
\<close>

datatype py_error = ZeroDivisionError | AttributeError

definition truediv :: "real \<Rightarrow> real \<Rightarrow> py_error + real" where
  "truediv a b = (if b = 0 then Inl ZeroDivisionError else Inr (a / b))"

text \<open>
  What a metric widget is given to show: a formatted number, or one of the two literal
  texts the scripts use in its place (the infinity sign and \<^verbatim>\<open>N/A\<close>).
\<close>

datatype shown = Number real | Infinity | NotAvailable

section \<open>app.py\<close>

text \<open>
  \<^verbatim>\<open>
  def calculate_ltv(arpu, churn_rate, gross_margin):
      if churn_rate == 0:
          return 0
      ltv = (arpu * (1/churn_rate) * gross_margin)
      return ltv
  \<close>
\<close>

definition calculate_ltv :: "real \<Rightarrow> real \<Rightarrow> real \<Rightarrow> py_error + real" where
  "calculate_ltv arpu churn_rate gross_margin =
     (if churn_rate = 0 then Inr 0
      else case truediv 1 churn_rate of
             Inl e \<Rightarrow> Inl e
           | Inr q \<Rightarrow> Inr (arpu * q * gross_margin))"

text \<open>
  \<^verbatim>\<open>get_recommendations(ltv_cac_ratio)\<close> returns a dict with the keys \<^verbatim>\<open>status\<close> and
  \<^verbatim>\<open>recommendations\<close>, chosen by
  \<^verbatim>\<open>if ltv_cac_ratio < 1: ... elif 1 <= ltv_cac_ratio <= 3: ... else: ...\<close>
\<close>

record advice =
  status :: string
  recommendations :: "string list"

definition get_recommendations :: "real \<Rightarrow> advice" where
  "get_recommendations ltv_cac_ratio =
     (if ltv_cac_ratio < 1 then
        \<lparr>status = ''Critical - Immediate Action Required'',
         recommendations =
           [''Optimize your ad spend and marketing channels'',
            ''Improve your conversion rate optimization (CRO)'',
            ''Consider increasing your prices'',
            ''Review and reduce your customer acquisition costs'',
            ''Focus on improving customer retention'']\<rparr>
      else if 1 \<le> ltv_cac_ratio \<and> ltv_cac_ratio \<le> 3 then
        \<lparr>status = ''Healthy - Room for Improvement'',
         recommendations =
           [''Start scaling your marketing efforts gradually'',
            ''Implement upselling and cross-selling strategies'',
            ''Focus on customer success and satisfaction'',
            ''Consider implementing a referral program'',
            ''Optimize your sales funnel'']\<rparr>
      else
        \<lparr>status = ''Excellent - Growth Opportunity'',
         recommendations =
           [''Significantly increase marketing investment'',
            ''Explore new marketing channels'',
            ''Consider expanding to new markets'',
            ''Invest in product development'',
            ''Build a scalable customer success program'']\<rparr>)"

text \<open>
  \<^verbatim>\<open>ltv_cac_ratio = ltv / cac if cac > 0 else 0\<close>
\<close>

definition ltv_cac_ratio :: "real \<Rightarrow> real \<Rightarrow> py_error + real" where
  "ltv_cac_ratio ltv cac = (if cac > 0 then truediv ltv cac else Inr 0)"

text \<open>
  \<^verbatim>\<open>payback_period = cac / (arpu * gross_margin) if arpu * gross_margin > 0 else 0\<close>
\<close>

definition app_payback_period :: "real \<Rightarrow> real \<Rightarrow> real \<Rightarrow> py_error + real" where
  "app_payback_period cac arpu gross_margin =
     (if arpu * gross_margin > 0 then truediv cac (arpu * gross_margin) else Inr 0)"

text \<open>
  The script body of \<^verbatim>\<open>app.py\<close>: four number inputs, the two percentages divided by 100,
  then
  \<^verbatim>\<open>
  ltv = calculate_ltv(arpu, churn_rate, gross_margin)
  ltv_cac_ratio = ltv / cac if cac > 0 else 0
  payback_period = cac / (arpu * gross_margin) if arpu * gross_margin > 0 else 0
  recommendations = get_recommendations(ltv_cac_ratio)
  \<close>
  Streamlit gives every script a session state (a dict of values kept between runs);
  \<^verbatim>\<open>app.py\<close> never names it, so its run hands the state on as it got it.
\<close>

record app_widgets =
  a_arpu :: real
  a_churn_rate_pct :: real
  a_gross_margin_pct :: real
  a_cac :: real

record app_rendered =
  a_ltv :: real
  a_ltv_cac_ratio :: real
  a_payback_period :: real
  a_recommendations :: advice

definition app_run ::
  "app_widgets \<Rightarrow> (string \<rightharpoonup> real) \<Rightarrow> (string \<rightharpoonup> real) \<times> (py_error + app_rendered)" where
  "app_run w s =
     (let churn = a_churn_rate_pct w / 100;
          gross_margin = a_gross_margin_pct w / 100
      in case calculate_ltv (a_arpu w) churn gross_margin of
           Inl e \<Rightarrow> (s, Inl e)
         | Inr l \<Rightarrow>
        (case ltv_cac_ratio l (a_cac w) of
           Inl e \<Rightarrow> (s, Inl e)
         | Inr r \<Rightarrow>
        (case app_payback_period (a_cac w) (a_arpu w) gross_margin of
           Inl e \<Rightarrow> (s, Inl e)
         | Inr pb \<Rightarrow>
             (s, Inr \<lparr>a_ltv = l, a_ltv_cac_ratio = r, a_payback_period = pb,
                      a_recommendations = get_recommendations r\<rparr>))))"

section \<open>calculator.py\<close>

subsection \<open>Tab 1: lifetime value\<close>

text \<open>
  The checkbox \<^verbatim>\<open>use_churn\<close> decides which of two number inputs exists in a run: the
  monthly churn rate in percent (\<^verbatim>\<open>min_value=0.0, max_value=100.0\<close>) or the lifespan in
  years (\<^verbatim>\<open>min_value=0.0\<close>).
  \<^verbatim>\<open>
  if use_churn:
      monthly_churn = st.number_input("Monthly Churn Rate (%)", ...) / 100
      customer_lifespan = 1 / (monthly_churn * 12)  # Convert to years
  else:
      customer_lifespan = st.number_input("Customer Lifespan (years)", ...)
  \<close>
\<close>

datatype lifespan_input = Churn_Rate_Pct real | Lifespan_Years real

fun customer_lifespan :: "lifespan_input \<Rightarrow> py_error + real" where
  "customer_lifespan (Churn_Rate_Pct pct) =
     (let monthly_churn = pct / 100 in truediv 1 (monthly_churn * 12))"
| "customer_lifespan (Lifespan_Years years) = Inr years"

text \<open>
  \<^verbatim>\<open>ltv = avg_purchase * purchase_freq * customer_lifespan\<close>
\<close>

definition ltv :: "real \<Rightarrow> real \<Rightarrow> real \<Rightarrow> real" where
  "ltv avg_purchase purchase_freq lifespan = avg_purchase * purchase_freq * lifespan"

subsection \<open>Tab 2: acquisition cost\<close>

text \<open>
  \<^verbatim>\<open>new_customers\<close> is an int input (\<^verbatim>\<open>min_value=0\<close>).
  \<^verbatim>\<open>
  cac = marketing_spend / new_customers if new_customers > 0 else 0
  monthly_revenue = avg_purchase * purchase_freq / 12 if ... else 0
  payback_period = cac / monthly_revenue if monthly_revenue > 0 else 0
  \<close>
  The condition of \<^verbatim>\<open>monthly_revenue\<close> asks whether the two variables of tab 1 are
  defined, which they are whenever tab 1 has run.
\<close>

definition cac :: "real \<Rightarrow> int \<Rightarrow> py_error + real" where
  "cac marketing_spend new_customers =
     (if new_customers > 0 then truediv marketing_spend (of_int new_customers) else Inr 0)"

definition monthly_revenue :: "real \<Rightarrow> real \<Rightarrow> real" where
  "monthly_revenue avg_purchase purchase_freq = avg_purchase * purchase_freq / 12"


subsection \<open>Tab 3: churn\<close>

text \<open>
  The radio button offers two methods; the customer counts are int inputs with
  \<^verbatim>\<open>min_value=0\<close> and no upper bound.
  \<^verbatim>\<open>
  if churn_method == "Lost Customers":
      churn_rate = lost_customers / start_customers if start_customers > 0 else 0
  else:
      churn_rate = (start_customers - end_customers) / start_customers if start_customers > 0 else 0
  \<close>
\<close>

datatype churn_method = Lost_Customers | Start_End_Comparison

fun churn_rate :: "churn_method \<Rightarrow> int \<Rightarrow> int \<Rightarrow> py_error + real" where
  "churn_rate Lost_Customers start_customers lost_customers =
     (if start_customers > 0 then truediv (of_int lost_customers) (of_int start_customers)
      else Inr 0)"
| "churn_rate Start_End_Comparison start_customers end_customers =
     (if start_customers > 0
      then truediv (of_int (start_customers - end_customers)) (of_int start_customers)
      else Inr 0)"

text \<open>
  \<^verbatim>\<open>
  st.metric("Annual Churn Rate", f"{(1 - (1-churn_rate)**12)*100:.1f}%")
  st.metric("Average Customer Lifespan",
            f"{1/(churn_rate*12):.1f} years" if churn_rate > 0 else [infinity sign])
  \<close>
\<close>

definition annual_churn_rate :: "real \<Rightarrow> real" where
  "annual_churn_rate rate = 1 - (1 - rate) ^ 12"

definition average_customer_lifespan :: "real \<Rightarrow> py_error + shown" where
  "average_customer_lifespan rate =
     (if rate > 0 then
        (case truediv 1 (rate * 12) of Inl e \<Rightarrow> Inl e | Inr years \<Rightarrow> Inr (Number years))
      else Inr Infinity)"

subsection \<open>Session state and tab 5: scenario planning\<close>

text \<open>
  \<^verbatim>\<open>st.session_state\<close> holds the two baselines under the keys \<^verbatim>\<open>base_ltv\<close> and
  \<^verbatim>\<open>base_cac\<close>. The script starts with
  \<^verbatim>\<open>
  if 'base_ltv' not in st.session_state:
      st.session_state.base_ltv = 0
  if 'base_cac' not in st.session_state:
      st.session_state.base_cac = 0
  \<close>
\<close>

type_synonym session_state = "string \<rightharpoonup> real"

definition init_session :: "session_state \<Rightarrow> session_state" where
  "init_session s =
     (let s1 = (if s ''base_ltv'' = None then s(''base_ltv'' \<mapsto> 0) else s)
      in if s1 ''base_cac'' = None then s1(''base_cac'' \<mapsto> 0) else s1)"

definition session_get :: "session_state \<Rightarrow> string \<Rightarrow> py_error + real" where
  "session_get s k = (case s k of None \<Rightarrow> Inl AttributeError | Some v \<Rightarrow> Inr v)"

text \<open>
  The sliders give ints (from -50 to 100, and from -50 to 50).
  \<^verbatim>\<open>
  new_ltv = st.session_state.base_ltv * (1 + purchase_value_change/100)
  new_cac = st.session_state.base_cac * (1 + cac_reduction/100)
  current_ratio = st.session_state.base_ltv / st.session_state.base_cac
                  if st.session_state.base_cac > 0 else 0
  new_ratio = new_ltv / new_cac if new_cac > 0 else 0
  f"{((new_ratio/current_ratio)-1)*100:+.1f}%" if current_ratio > 0 else "N/A"
  \<close>
\<close>

definition new_ltv :: "real \<Rightarrow> int \<Rightarrow> real" where
  "new_ltv base_ltv purchase_value_change =
     base_ltv * (1 + of_int purchase_value_change / 100)"

definition new_cac :: "real \<Rightarrow> int \<Rightarrow> real" where
  "new_cac base_cac cac_reduction = base_cac * (1 + of_int cac_reduction / 100)"

definition current_ratio :: "real \<Rightarrow> real \<Rightarrow> py_error + real" where
  "current_ratio base_ltv base_cac =
     (if base_cac > 0 then truediv base_ltv base_cac else Inr 0)"

definition new_ratio :: "real \<Rightarrow> real \<Rightarrow> py_error + real" where
  "new_ratio nl nc = (if nc > 0 then truediv nl nc else Inr 0)"

definition ratio_change :: "real \<Rightarrow> real \<Rightarrow> py_error + shown" where
  "ratio_change nr cr =
     (if cr > 0 then
        (case truediv nr cr of Inl e \<Rightarrow> Inl e | Inr q \<Rightarrow> Inr (Number ((q - 1) * 100)))
      else Inr NotAvailable)"

record scenario =
  sc_new_ltv :: real
  sc_new_cac :: real
  sc_current_ratio :: real
  sc_new_ratio :: real
  sc_ratio_change :: shown

definition scenario_planning :: "session_state \<Rightarrow> int \<Rightarrow> int \<Rightarrow> py_error + scenario" where
  "scenario_planning s purchase_value_change cac_reduction =
     (case session_get s ''base_ltv'' of Inl e \<Rightarrow> Inl e | Inr base_ltv \<Rightarrow>
      case session_get s ''base_cac'' of Inl e \<Rightarrow> Inl e | Inr base_cac \<Rightarrow>
        (let nl = new_ltv base_ltv purchase_value_change;
             nc = new_cac base_cac cac_reduction
         in case current_ratio base_ltv base_cac of Inl e \<Rightarrow> Inl e | Inr cr \<Rightarrow>
            case new_ratio nl nc of Inl e \<Rightarrow> Inl e | Inr nr \<Rightarrow>
            case ratio_change nr cr of Inl e \<Rightarrow> Inl e | Inr ch \<Rightarrow>
              Inr \<lparr>sc_new_ltv = nl, sc_new_cac = nc, sc_current_ratio = cr,
                   sc_new_ratio = nr, sc_ratio_change = ch\<rparr>))"

subsection \<open>Footer: classification of the ratio\<close>

text \<open>
  The footer prints the benchmark legend "Below 1:1 - Critical, 1:1 to 3:1 - Needs Work,
  3:1 to 5:1 - Healthy, Above 5:1 - Excellent" and then picks one message:
  \<^verbatim>\<open>
  ratio = st.session_state.base_ltv / st.session_state.base_cac
          if st.session_state.base_cac > 0 else 0
  if ratio < 1:   st.error("Critical LTV/CAC Ratio: ...")
  elif ratio < 3: st.warning("Below Target LTV/CAC Ratio: ...")
  elif ratio < 5: st.success("Good LTV/CAC Ratio: ...")
  else:           st.success("Excellent LTV/CAC Ratio: ...")
  \<close>
  The four branches are the four tiers of the legend, in its order.
\<close>

datatype tier = Critical | Needs_Work | Healthy | Excellent

definition ratio :: "real \<Rightarrow> real \<Rightarrow> py_error + real" where
  "ratio base_ltv base_cac = (if base_cac > 0 then truediv base_ltv base_cac else Inr 0)"

definition footer_status :: "real \<Rightarrow> tier" where
  "footer_status r =
     (if r < 1 then Critical
      else if r < 3 then Needs_Work
      else if r < 5 then Healthy
      else Excellent)"

text \<open>
  The footer runs under
  \<^verbatim>\<open>if 'base_ltv' in st.session_state and 'base_cac' in st.session_state:\<close>
\<close>

definition footer :: "session_state \<Rightarrow> py_error + (real \<times> tier) option" where
  "footer s =
     (if s ''base_ltv'' = None then Inr None
      else if s ''base_cac'' = None then Inr None
      else case session_get s ''base_ltv'' of Inl e \<Rightarrow> Inl e | Inr base_ltv \<Rightarrow>
           case session_get s ''base_cac'' of Inl e \<Rightarrow> Inl e | Inr base_cac \<Rightarrow>
           case ratio base_ltv base_cac of Inl e \<Rightarrow> Inl e | Inr r \<Rightarrow>
             Inr (Some (r, footer_status r)))"

subsection \<open>One run of the script\<close>

text \<open>
  Streamlit runs the script from top to bottom on every interaction, with the values of
  the widgets and the session state the previous run left. An exception stops the run;
  what was written to the session state before it stays. The run below keeps the
  initialisation, tab 1 (which stores \<^verbatim>\<open>base_ltv\<close>), the acquisition cost of tab 2 (which
  stores \<^verbatim>\<open>base_cac\<close>), the three churn metrics of tab 3, tab 5 and the footer. Tab 4 and
  the other metrics of tab 2 neither read nor write the session state. Tab 3 shows the
  two rates as percentages; the run keeps the rates themselves.
\<close>

record widgets =
  w_avg_purchase :: real
  w_purchase_freq :: real
  w_lifespan :: lifespan_input
  w_marketing_spend :: real
  w_new_customers :: int
  w_churn_method :: churn_method
  w_start_customers :: int
  w_lost_or_end_customers :: int
  w_purchase_value_change :: int
  w_cac_reduction :: int

record rendered =
  r_ltv :: real
  r_cac :: real
  r_churn_rate :: real
  r_annual_churn_rate :: real
  r_average_customer_lifespan :: shown
  r_scenario :: scenario
  r_footer :: "(real \<times> tier) option"

definition tab1 :: "widgets \<Rightarrow> session_state \<Rightarrow> session_state \<times> (py_error + real)" where
  "tab1 w s =
     (case customer_lifespan (w_lifespan w) of
        Inl e \<Rightarrow> (s, Inl e)
      | Inr lifespan \<Rightarrow>
          (let l = ltv (w_avg_purchase w) (w_purchase_freq w) lifespan
           in (s(''base_ltv'' \<mapsto> l), Inr l)))"

definition tab2 :: "widgets \<Rightarrow> session_state \<Rightarrow> session_state \<times> (py_error + real)" where
  "tab2 w s =
     (case cac (w_marketing_spend w) (w_new_customers w) of
        Inl e \<Rightarrow> (s, Inl e)
      | Inr c \<Rightarrow> (s(''base_cac'' \<mapsto> c), Inr c))"

definition tab3 :: "widgets \<Rightarrow> py_error + (real \<times> real \<times> shown)" where
  "tab3 w =
     (case churn_rate (w_churn_method w) (w_start_customers w) (w_lost_or_end_customers w) of
        Inl e \<Rightarrow> Inl e
      | Inr rate \<Rightarrow>
          (case average_customer_lifespan rate of
             Inl e \<Rightarrow> Inl e
           | Inr years \<Rightarrow> Inr (rate, annual_churn_rate rate, years)))"

definition script_run :: "widgets \<Rightarrow> session_state \<Rightarrow> session_state \<times> (py_error + rendered)" where
  "script_run w s =
     (let s0 = init_session s in
      case tab1 w s0 of
        (s1, Inl e) \<Rightarrow> (s1, Inl e)
      | (s1, Inr l) \<Rightarrow>
      (case tab2 w s1 of
        (s2, Inl e) \<Rightarrow> (s2, Inl e)
      | (s2, Inr c) \<Rightarrow>
      (case tab3 w of
        Inl e \<Rightarrow> (s2, Inl e)
      | Inr (rate, annual, years) \<Rightarrow>
      (case scenario_planning s2 (w_purchase_value_change w) (w_cac_reduction w) of
        Inl e \<Rightarrow> (s2, Inl e)
      | Inr sc \<Rightarrow>
      (case footer s2 of
        Inl e \<Rightarrow> (s2, Inl e)
      | Inr ft \<Rightarrow>
          (s2, Inr \<lparr>r_ltv = l, r_cac = c, r_churn_rate = rate,
                   r_annual_churn_rate = annual, r_average_customer_lifespan = years,
                   r_scenario = sc, r_footer = ft\<rparr>))))))"

section \<open>LTV\_Calculator\_Project/calculator.py\<close>

text \<open>
  This variant shares tabs 1, 3 and 5 and the computation of \<^verbatim>\<open>cac\<close> with
  \<^verbatim>\<open>calculator.py\<close>. Its tab 2 shows two more metrics, both only when the lifetime value
  is positive:
  \<^verbatim>\<open>
  if ltv > 0:
      st.metric("LTV/CAC Ratio", f"{ltv/cac:.2f}" if cac > 0 else [infinity sign])
      st.metric("CAC Payback Period",
                f"{(cac/(avg_purchase * purchase_freq/12)):.1f} months"
                if avg_purchase * purchase_freq > 0 else "N/A")
  \<close>
  \<open>None\<close> stands for a metric that is not rendered. The lifetime value tested here is
  the one of tab 1, \<^verbatim>\<open>ltv = avg_purchase * purchase_freq * customer_lifespan\<close>, built
  from the same two inputs as the denominator of the payback metric.
\<close>

definition project_ratio_metric :: "real \<Rightarrow> real \<Rightarrow> py_error + shown option" where
  "project_ratio_metric l c =
     (if l > 0 then
        (if c > 0 then
           (case truediv l c of Inl e \<Rightarrow> Inl e | Inr q \<Rightarrow> Inr (Some (Number q)))
         else Inr (Some Infinity))
      else Inr None)"


section \<open>Binary64 arithmetic\<close>

text \<open>
  Python floats are IEEE 754 binary64 numbers, and every arithmetic operation returns the
  exact result rounded to the nearest double, ties to the even significand. The doubles
  with binary exponent e are the multiples of 2^(e - 52) between 2^e and 2^(e + 1); below
  2^(-1022) the spacing stays 2^(-1074). \<open>to_double\<close> is that rounding on the reals. Where
  the rounded value reaches 2^1024 Python has an infinity: the model answers \<open>None\<close> there
  and follows the run no further.
\<close>

definition round_half_even :: "real \<Rightarrow> int" where
  "round_half_even y =
     (let f = \<lfloor>y\<rfloor>; d = y - of_int f
      in if d < 1 / 2 then f else if 1 / 2 < d then f + 1 else if even f then f else f + 1)"

fun exponent_search :: "nat \<Rightarrow> int \<Rightarrow> real \<Rightarrow> int" where
  "exponent_search 0 lo x = lo"
| "exponent_search (Suc k) lo x =
     (if 2 powi (lo + 2 ^ k) \<le> x then exponent_search k (lo + 2 ^ k) x
      else exponent_search k lo x)"

definition binary_exponent :: "real \<Rightarrow> int" where
  "binary_exponent x = exponent_search 12 (- 2048) x"

definition to_double :: "real \<Rightarrow> real option" where
  "to_double x =
     (let e = max (binary_exponent \<bar>x\<bar>) (- 1022);
          ulp = 2 powi (e - 52);
          y = sgn x * of_int (round_half_even (\<bar>x\<bar> / ulp)) * ulp
      in if \<bar>y\<bar> < 2 powi 1024 then Some y else None)"

text \<open>
  The lines of tab 5 with their roundings. A slider gives an int, so
  \<^verbatim>\<open>purchase_value_change/100\<close> is an int division, whose result Python rounds correctly;
  \<^verbatim>\<open>1 + ...\<close> and the products and quotients are float operations.
  \<^verbatim>\<open>
  new_ltv = st.session_state.base_ltv * (1 + purchase_value_change/100)
  new_cac = st.session_state.base_cac * (1 + cac_reduction/100)
  current_ratio = st.session_state.base_ltv / st.session_state.base_cac
                  if st.session_state.base_cac > 0 else 0
  new_ratio = new_ltv / new_cac if new_cac > 0 else 0
  \<close>
\<close>

definition double_factor :: "int \<Rightarrow> real option" where
  "double_factor pct =
     (case to_double (of_int pct / 100) of
        None \<Rightarrow> None
      | Some a \<Rightarrow> to_double (1 + a))"

definition double_new_ltv :: "real \<Rightarrow> int \<Rightarrow> real option" where
  "double_new_ltv base_ltv purchase_value_change =
     (case double_factor purchase_value_change of
        None \<Rightarrow> None
      | Some f \<Rightarrow> to_double (base_ltv * f))"

definition double_new_cac :: "real \<Rightarrow> int \<Rightarrow> real option" where
  "double_new_cac base_cac cac_reduction =
     (case double_factor cac_reduction of
        None \<Rightarrow> None
      | Some f \<Rightarrow> to_double (base_cac * f))"

definition double_truediv :: "real \<Rightarrow> real \<Rightarrow> py_error + real option" where
  "double_truediv a b = (if b = 0 then Inl ZeroDivisionError else Inr (to_double (a / b)))"

definition double_current_ratio :: "real \<Rightarrow> real \<Rightarrow> py_error + real option" where
  "double_current_ratio base_ltv base_cac =
     (if base_cac > 0 then double_truediv base_ltv base_cac else Inr (Some 0))"

definition double_new_ratio :: "real \<Rightarrow> real \<Rightarrow> py_error + real option" where
  "double_new_ratio nl nc = (if nc > 0 then double_truediv nl nc else Inr (Some 0))"

definition double_ratios :: "real \<Rightarrow> real \<Rightarrow> int \<Rightarrow> int \<Rightarrow> py_error + (real \<times> real) option" where
  "double_ratios base_ltv base_cac purchase_value_change cac_reduction =
     (case double_new_ltv base_ltv purchase_value_change of
        None \<Rightarrow> Inr None
      | Some nl \<Rightarrow>
     (case double_new_cac base_cac cac_reduction of
        None \<Rightarrow> Inr None
      | Some nc \<Rightarrow>
     (case double_current_ratio base_ltv base_cac of
        Inl e \<Rightarrow> Inl e
      | Inr None \<Rightarrow> Inr None
      | Inr (Some cur) \<Rightarrow>
     (case double_new_ratio nl nc of
        Inl e \<Rightarrow> Inl e
      | Inr None \<Rightarrow> Inr None
      | Inr (Some new) \<Rightarrow> Inr (Some (cur, new))))))"

section \<open>The specification's ratio, for comparison\<close>

text \<open>
  The specification describes one function: \<^verbatim>\<open>computeRatio(ltv, cac) -> ltv/cac\<close>, the
  infinity sentinel when cac = 0 and ltv > 0, else 0. This definition follows those words
  and is compared with the code below.
\<close>

definition computeRatio_spec :: "real \<Rightarrow> real \<Rightarrow> shown" where
  "computeRatio_spec l c =
     (if c > 0 then Number (l / c) else if l > 0 then Infinity else Number 0)"


text \<open>The range the specification gives for a churn rate.\<close>

definition within_unit_interval :: "py_error + real \<Rightarrow> bool" where
  "within_unit_interval res = (case res of Inl e \<Rightarrow> False | Inr r \<Rightarrow> 0 \<le> r \<and> r \<le> 1)"


section \<open>Guarded divisions return\<close>

text \<open>
  Each guarded division of the scripts returns a value: the guard excludes the zero
  divisor, so the error branch of \<open>truediv\<close> is never taken.
\<close>

lemma ltv_cac_ratio_eq:
  "ltv_cac_ratio l c = Inr (if 0 < c then l / c else 0)"
  by (simp add: ltv_cac_ratio_def truediv_def)

lemma cac_eq:
  "cac spend n = Inr (if 0 < n then spend / of_int n else 0)"
  by (simp add: cac_def truediv_def)



lemma project_ratio_metric_eq:
  "project_ratio_metric l c
     = Inr (if 0 < l then Some (if 0 < c then Number (l / c) else Infinity) else None)"
  by (simp add: project_ratio_metric_def truediv_def)


lemma current_ratio_eq:
  "current_ratio l c = Inr (if 0 < c then l / c else 0)"
  by (simp add: current_ratio_def truediv_def)

lemma new_ratio_eq:
  "new_ratio l c = Inr (if 0 < c then l / c else 0)"
  by (simp add: new_ratio_def truediv_def)

lemma ratio_eq:
  "ratio l c = Inr (if 0 < c then l / c else 0)"
  by (simp add: ratio_def truediv_def)

lemma ratio_change_eq:
  "ratio_change nr cr = Inr (if 0 < cr then Number ((nr / cr - 1) * 100) else NotAvailable)"
  by (simp add: ratio_change_def truediv_def)

lemma scenario_planning_eq:
  assumes "s ''base_ltv'' = Some l" and "s ''base_cac'' = Some c"
  shows "scenario_planning s p q =
     Inr \<lparr>sc_new_ltv = new_ltv l p, sc_new_cac = new_cac c q,
          sc_current_ratio = (if 0 < c then l / c else 0),
          sc_new_ratio = (if 0 < new_cac c q then new_ltv l p / new_cac c q else 0),
          sc_ratio_change =
            (if 0 < (if 0 < c then l / c else 0)
             then Number (((if 0 < new_cac c q then new_ltv l p / new_cac c q else 0)
                           / (if 0 < c then l / c else 0) - 1) * 100)
             else NotAvailable)\<rparr>"
  unfolding scenario_planning_def session_get_def
  by (simp add: assms current_ratio_eq new_ratio_eq ratio_change_eq Let_def)


section \<open>Lifespan from churn\<close>

text \<open>
  C1. The claim: the churn-to-lifespan conversion returns 1 / (monthly churn * 12) for a
  positive rate and the infinity sentinel for the rate 0, without raising a division by
  zero. Tab 3 of \<^verbatim>\<open>calculator.py\<close> does so; tab 1 divides without a guard, and at the rate
  0, which its input allows, the division raises.
\<close>

theorem customer_lifespan_zero_churn_raises:
  "customer_lifespan (Churn_Rate_Pct 0) = Inl ZeroDivisionError
   \<and> average_customer_lifespan 0 = Inr Infinity"
  by (simp add: truediv_def average_customer_lifespan_def)

section \<open>The ratio of lifetime value to acquisition cost\<close>

text \<open>
  The specification's ratio gives the infinity sentinel at ltv = 300, cac = 0; the ratio of
  \<^verbatim>\<open>app.py\<close> is the number 0 there.
\<close>

theorem ratio_zero_cac_counterexample:
  "ltv_cac_ratio 300 0 = Inr 0 \<and> Number 0 \<noteq> computeRatio_spec 300 0"
  by (simp add: ltv_cac_ratio_def computeRatio_spec_def)

text \<open>
  C2, as the code has it. For ltv \<ge> 0 and cac \<ge> 0 the ratio of \<^verbatim>\<open>app.py\<close> is ltv / cac
  when cac > 0 and the number 0 when cac = 0, whatever ltv is. The ratio metric of tab 2 in
  the project variant is rendered only when ltv > 0; it then shows ltv / cac when cac > 0
  and the infinity sign when cac = 0. Neither raises.
\<close>

theorem ratio_guards:
  assumes "0 \<le> l" and "0 \<le> c"
  shows "(0 < c \<longrightarrow> ltv_cac_ratio l c = Inr (l / c))
       \<and> (c = 0 \<longrightarrow> ltv_cac_ratio l c = Inr 0)
       \<and> (0 < l \<and> 0 < c \<longrightarrow> project_ratio_metric l c = Inr (Some (Number (l / c))))
       \<and> (0 < l \<and> c = 0 \<longrightarrow> project_ratio_metric l c = Inr (Some Infinity))
       \<and> (l = 0 \<longrightarrow> project_ratio_metric l c = Inr None)"
  by (simp add: ltv_cac_ratio_eq project_ratio_metric_eq)

theorem ratio_guards_witness:
  "ltv_cac_ratio 300 20 = Inr 15 \<and> ltv_cac_ratio 300 0 = Inr 0 \<and> ltv_cac_ratio 0 0 = Inr 0
   \<and> project_ratio_metric 300 20 = Inr (Some (Number 15))
   \<and> project_ratio_metric 300 0 = Inr (Some Infinity)
   \<and> project_ratio_metric 0 0 = Inr None"
  using ratio_guards [of 300 20] ratio_guards [of 300 0] ratio_guards [of 0 0]
  by simp

section \<open>Classification of the ratio\<close>

text \<open>
  \<^verbatim>\<open>get_recommendations\<close> of \<^verbatim>\<open>app.py\<close> has three tiers: it answers the ratio 4 as it
  answers 6, and the ratio 3 as it answers 2, where the claim separates them.
\<close>

theorem get_recommendations_counterexample:
  "get_recommendations 4 = get_recommendations 6
   \<and> status (get_recommendations 4) = ''Excellent - Growth Opportunity''
   \<and> get_recommendations 3 = get_recommendations 2
   \<and> status (get_recommendations 3) = ''Healthy - Room for Improvement''"
  by (simp add: get_recommendations_def)

text \<open>
  C3, as the code has it. The footer of \<^verbatim>\<open>calculator.py\<close> puts every ratio in exactly one
  of four tiers: Critical below 1, Needs Work from 1 to below 3, Healthy from 3 to below 5,
  Excellent from 5 on; so 0.5, 2, 4 and 6 fall in the four tiers in this order.
  \<^verbatim>\<open>get_recommendations\<close> of \<^verbatim>\<open>app.py\<close> has three statuses: Critical below 1, Healthy
  with room for improvement from 1 to 3 inclusive, Excellent above 3.
\<close>

theorem ratio_tiers:
  "(r < 1 \<longrightarrow> footer_status r = Critical)
   \<and> (1 \<le> r \<and> r < 3 \<longrightarrow> footer_status r = Needs_Work)
   \<and> (3 \<le> r \<and> r < 5 \<longrightarrow> footer_status r = Healthy)
   \<and> (5 \<le> r \<longrightarrow> footer_status r = Excellent)
   \<and> footer_status (1 / 2) = Critical \<and> footer_status 2 = Needs_Work
   \<and> footer_status 4 = Healthy \<and> footer_status 6 = Excellent
   \<and> (r < 1 \<longrightarrow> status (get_recommendations r) = ''Critical - Immediate Action Required'')
   \<and> (1 \<le> r \<and> r \<le> 3 \<longrightarrow> status (get_recommendations r) = ''Healthy - Room for Improvement'')
   \<and> (3 < r \<longrightarrow> status (get_recommendations r) = ''Excellent - Growth Opportunity'')"
  by (simp add: footer_status_def get_recommendations_def)

theorem ratio_tiers_witness:
  "footer_status (1 / 2) = Critical \<and> footer_status 1 = Needs_Work
   \<and> footer_status 3 = Healthy \<and> footer_status 5 = Excellent
   \<and> status (get_recommendations (1 / 2)) = ''Critical - Immediate Action Required''
   \<and> status (get_recommendations 3) = ''Healthy - Room for Improvement''
   \<and> status (get_recommendations 4) = ''Excellent - Growth Opportunity''"
  using ratio_tiers [of "1 / 2"] ratio_tiers [of 1] ratio_tiers [of 3] ratio_tiers [of 5]
    ratio_tiers [of 4]
  by simp

section \<open>Churn rate\<close>

text \<open>
  With 10 customers at the start, 50 lost customers give the rate 5 and 50 customers at
  the end give the rate -4: both inputs are allowed, and both rates are outside [0,1].
\<close>

theorem churn_rate_counterexample:
  "\<not> within_unit_interval (churn_rate Lost_Customers 10 50)
   \<and> \<not> within_unit_interval (churn_rate Start_End_Comparison 10 50)"
  by (simp add: within_unit_interval_def truediv_def)

text \<open>
  C4, as the code has it. For either method and non-negative counts, the churn rate is
  lost / start (respectively (start - end) / start) when start > 0 and the sentinel 0 when
  start = 0, without raising; it lies in [0,1] whenever the second count (lost, or end)
  does not exceed start.
\<close>

theorem churn_rate_formula_and_range:
  assumes "0 \<le> start" and "0 \<le> x"
  shows "(0 < start \<longrightarrow> churn_rate Lost_Customers start x = Inr (of_int x / of_int start))
       \<and> (0 < start \<longrightarrow>
            churn_rate Start_End_Comparison start x = Inr (of_int (start - x) / of_int start))
       \<and> (start = 0 \<longrightarrow> churn_rate m start x = Inr 0)
       \<and> (x \<le> start \<longrightarrow> within_unit_interval (churn_rate m start x))"
  using assms by (cases m) (simp_all add: truediv_def within_unit_interval_def)

theorem churn_rate_formula_and_range_witness:
  "churn_rate Lost_Customers 1000 50 = Inr (50 / 1000)
   \<and> churn_rate Start_End_Comparison 1000 950 = Inr (50 / 1000)
   \<and> churn_rate Lost_Customers 0 50 = Inr 0
   \<and> within_unit_interval (churn_rate Lost_Customers 1000 50)
   \<and> within_unit_interval (churn_rate Start_End_Comparison 1000 950)"
  using churn_rate_formula_and_range [of 1000 50 Lost_Customers]
    churn_rate_formula_and_range [of 1000 950 Start_End_Comparison]
    churn_rate_formula_and_range [of 0 50 Lost_Customers]
  by simp

section \<open>Payback period\<close>




section \<open>Monotonicity of acquisition cost and lifetime value\<close>

text \<open>
  With a spend of 100, the acquisition cost is the sentinel 0 for no new customer and 100
  for one: it rises where the claim has it non-increasing in the number of customers.
\<close>

theorem cac_not_antitone_counterexample:
  "cac 100 0 = Inr 0 \<and> cac 100 1 = Inr 100"
  by (simp add: cac_def truediv_def)

text \<open>
  C6, as the code has it. For non-negative inputs the acquisition cost returns a value
  and is non-decreasing in the spend for every number of new customers, the guarded
  number 0 included (where it is constantly 0); it is non-increasing in the number of new
  customers over the positive numbers. The lifetime value is non-decreasing in each of its
  three arguments.
\<close>

theorem cac_ltv_monotone:
  "(0 \<le> s1 \<and> s1 \<le> s2 \<and> 0 \<le> n \<longrightarrow>
      (\<exists>a b. cac s1 n = Inr a \<and> cac s2 n = Inr b \<and> a \<le> b))
   \<and> (0 \<le> s \<and> 0 < n1 \<and> n1 \<le> n2 \<longrightarrow>
      (\<exists>a b. cac s n1 = Inr a \<and> cac s n2 = Inr b \<and> b \<le> a))
   \<and> (0 \<le> x1 \<and> x1 \<le> x2 \<and> 0 \<le> y \<and> 0 \<le> z \<longrightarrow>
      ltv x1 y z \<le> ltv x2 y z \<and> ltv y x1 z \<le> ltv y x2 z \<and> ltv y z x1 \<le> ltv y z x2)"
proof -
  have spend: "\<exists>a b. cac s1 n = Inr a \<and> cac s2 n = Inr b \<and> a \<le> b"
    if "0 \<le> s1" "s1 \<le> s2" "0 \<le> n"
    using that by (simp add: cac_def truediv_def divide_right_mono)
  have customers: "\<exists>a b. cac s n1 = Inr a \<and> cac s n2 = Inr b \<and> b \<le> a"
    if "0 \<le> s" "0 < n1" "n1 \<le> n2"
    using that by (simp add: cac_def truediv_def frac_le)
  have lifetime: "ltv x1 y z \<le> ltv x2 y z \<and> ltv y x1 z \<le> ltv y x2 z \<and> ltv y z x1 \<le> ltv y z x2"
    if "0 \<le> x1" "x1 \<le> x2" "0 \<le> y" "0 \<le> z"
    using that by (simp add: ltv_def mult_right_mono mult_left_mono)
  from spend customers lifetime show ?thesis by blast
qed

theorem cac_ltv_monotone_witness:
  "(\<exists>a b. cac 5000 50 = Inr a \<and> cac 10000 50 = Inr b \<and> a \<le> b)
   \<and> (\<exists>a b. cac 5000 0 = Inr a \<and> cac 10000 0 = Inr b \<and> a \<le> b)
   \<and> (\<exists>a b. cac 5000 50 = Inr a \<and> cac 5000 500 = Inr b \<and> b \<le> a)
   \<and> ltv 50 2 3 \<le> ltv 60 2 3 \<and> ltv 2 50 3 \<le> ltv 2 60 3 \<and> ltv 2 3 50 \<le> ltv 2 3 60"
  using cac_ltv_monotone [of 5000 10000 50 5000 50 500 50 60 2 3]
    cac_ltv_monotone [of 5000 10000 0 5000 50 500 50 60 2 3]
  by simp

section \<open>Lifetime value from the average revenue per customer\<close>

text \<open>
  C7. For every arpu \<ge> 0, monthly churn in [0,1] and gross margin in [0,1],
  \<^verbatim>\<open>calculate_ltv\<close> returns arpu * (1 / churn) * margin when the churn is positive and
  returns 0 when the churn is 0; it returns a value in both cases and never raises.
\<close>

theorem calculate_ltv_business_rule:
  assumes "0 \<le> arpu" and "0 \<le> churn" and "churn \<le> 1"
    and "0 \<le> gross_margin" and "gross_margin \<le> 1"
  shows "(0 < churn \<longrightarrow>
            calculate_ltv arpu churn gross_margin
              = Inr (arpu * (1 / churn) * gross_margin))
       \<and> (churn = 0 \<longrightarrow> calculate_ltv arpu churn gross_margin = Inr 0)"
  by (simp add: calculate_ltv_def truediv_def)

theorem calculate_ltv_business_rule_witness:
  "calculate_ltv 100 (5 / 100) (70 / 100) = Inr (100 * (1 / (5 / 100)) * (70 / 100))
   \<and> calculate_ltv 100 0 (70 / 100) = Inr 0"
  using calculate_ltv_business_rule [of 100 "5 / 100" "70 / 100"]
        calculate_ltv_business_rule [of 100 0 "70 / 100"]
  by simp

section \<open>Scenario planning\<close>

text \<open>
  C8. With the baselines ltv and cac in the session state, tab 5 returns, for every pair
  of percentage deltas, the new lifetime value ltv * (1 + delta / 100) and the new
  acquisition cost cac * (1 + delta / 100); the baseline (300, 20) with the deltas
  10 and -10 gives (330, 18).
\<close>

theorem scenario_applies_deltas:
  assumes "s ''base_ltv'' = Some l" and "s ''base_cac'' = Some c"
  shows "(\<exists>sc. scenario_planning s p q = Inr sc
            \<and> sc_new_ltv sc = l * (1 + of_int p / 100)
            \<and> sc_new_cac sc = c * (1 + of_int q / 100))
       \<and> new_ltv 300 10 = 330 \<and> new_cac 20 (- 10) = 18"
proof -
  have "new_ltv 300 10 = 330 \<and> new_cac 20 (- 10) = 18"
    by (simp add: new_ltv_def new_cac_def)
  moreover have "new_ltv l p = l * (1 + of_int p / 100)"
    and "new_cac c q = c * (1 + of_int q / 100)"
    by (simp_all add: new_ltv_def new_cac_def)
  ultimately show ?thesis
    by (simp add: scenario_planning_eq [OF assms])
qed

theorem scenario_applies_deltas_witness:
  "\<exists>sc. scenario_planning [''base_ltv'' \<mapsto> 300, ''base_cac'' \<mapsto> 20] 10 (- 10) = Inr sc
         \<and> sc_new_ltv sc = 330 \<and> sc_new_cac sc = 18"
proof -
  let ?s = "[''base_ltv'' \<mapsto> 300, ''base_cac'' \<mapsto> (20::real)]"
  have l: "?s ''base_ltv'' = Some 300" and c: "?s ''base_cac'' = Some 20"
    by simp_all
  from scenario_applies_deltas [OF l c, of 10 "- 10"]
  obtain sc where run: "scenario_planning ?s 10 (- 10) = Inr sc"
    and nl: "sc_new_ltv sc = 300 * (1 + of_int 10 / 100)"
    and nc: "sc_new_cac sc = 20 * (1 + of_int (- 10) / 100)"
    by blast
  from nl have "sc_new_ltv sc = 330" by simp
  moreover from nc have "sc_new_cac sc = 18" by simp
  ultimately show ?thesis using run by blast
qed

text \<open>
  With exact numbers, the same percentage on both sliders leaves the ratio as it is:
  (ltv * (1 + p / 100)) / (cac * (1 + p / 100)) = ltv / cac.
\<close>

lemma same_delta_preserves_ratio_exact:
  assumes "s ''base_ltv'' = Some l" and "s ''base_cac'' = Some c"
    and "0 < c" and "- 100 < p"
  shows "\<exists>sc. scenario_planning s p p = Inr sc
            \<and> sc_new_ratio sc = sc_new_ltv sc / sc_new_cac sc
            \<and> sc_new_ltv sc / sc_new_cac sc = l / c
            \<and> sc_current_ratio sc = l / c
            \<and> sc_new_ratio sc = sc_current_ratio sc"
proof -
  have "(- 100 :: real) < of_int p"
    using \<open>- 100 < p\<close> by linarith
  then have factor: "0 < 1 + (of_int p :: real) / 100"
    by simp
  then have pos: "0 < new_cac c p"
    using \<open>0 < c\<close> by (simp add: new_cac_def)
  have quot: "new_ltv l p / new_cac c p = l / c"
    using factor by (simp add: new_ltv_def new_cac_def)
  show ?thesis
    using pos quot \<open>0 < c\<close>
    by (simp add: scenario_planning_eq [OF assms(1) assms(2)])
qed

section \<open>The two ratios of tab 5 in binary64\<close>

text \<open>Properties of the rounding.\<close>

lemma round_half_even_error: "\<bar>of_int (round_half_even y) - y\<bar> \<le> 1 / 2"
proof -
  have "of_int \<lfloor>y\<rfloor> \<le> y" and "y < of_int \<lfloor>y\<rfloor> + 1"
    by linarith+
  then show ?thesis
    by (auto simp add: round_half_even_def Let_def)
qed

lemma exponent_search_bounds:
  assumes "2 powi lo \<le> x" and "x < 2 powi (lo + 2 ^ k)"
  shows "2 powi (exponent_search k lo x) \<le> x \<and> x < 2 powi (exponent_search k lo x + 1)"
  using assms
proof (induction k arbitrary: lo)
  case 0
  then show ?case by simp
next
  case (Suc k)
  show ?case
  proof (cases "2 powi (lo + 2 ^ k) \<le> x")
    case True
    have "x < 2 powi (lo + 2 ^ k + 2 ^ k)"
      using Suc.prems(2) by (simp add: algebra_simps)
    from Suc.IH [OF True this] True show ?thesis by simp
  next
    case False
    then have "x < 2 powi (lo + 2 ^ k)" by simp
    from Suc.IH [OF Suc.prems(1) this] False show ?thesis by simp
  qed
qed

lemma pow2_less_exponent:
  assumes "(2::real) powi m < 2 powi n"
  shows "m < n"
proof (rule ccontr)
  assume "\<not> m < n"
  then have "n \<le> m" by simp
  then have "(2::real) powi n \<le> 2 powi m"
    by (rule power_int_increasing) simp
  with assms show False by simp
qed

lemma exponent_unique:
  fixes x :: real
  assumes "2 powi e \<le> x" and "x < 2 powi (e + 1)"
    and "2 powi e' \<le> x" and "x < 2 powi (e' + 1)"
  shows "e = e'"
proof -
  have "(2::real) powi e < 2 powi (e' + 1)" and "(2::real) powi e' < 2 powi (e + 1)"
    using assms by linarith+
  then have "e < e' + 1" and "e' < e + 1"
    using pow2_less_exponent by blast+
  then show ?thesis by simp
qed

lemma binary_exponent_bounds:
  assumes "2 powi (- 2048) \<le> x" and "x < 2 powi 2048"
  shows "2 powi (binary_exponent x) \<le> x \<and> x < 2 powi (binary_exponent x + 1)"
proof -
  have "x < 2 powi (- 2048 + 2 ^ 12)"
    using assms(2) by simp
  from exponent_search_bounds [OF assms(1) this] show ?thesis
    by (simp only: binary_exponent_def)
qed

lemma binary_exponent_eq:
  assumes "2 powi e \<le> x" and "x < 2 powi (e + 1)" and "- 2048 \<le> e" and "e < 2048"
  shows "binary_exponent x = e"
proof -
  have "(2::real) powi (- 2048) \<le> 2 powi e"
    using assms(3) by (intro power_int_increasing) simp_all
  with assms(1) have lo: "2 powi (- 2048) \<le> x" by linarith
  have "(2::real) powi (e + 1) \<le> 2 powi 2048"
    using assms(4) by (intro power_int_increasing) simp_all
  with assms(2) have hi: "x < 2 powi 2048" by linarith
  from binary_exponent_bounds [OF lo hi] assms(1,2) show ?thesis
    using exponent_unique by blast
qed

lemma round_half_even_nonneg:
  assumes "0 \<le> y"
  shows "0 \<le> round_half_even y"
proof -
  have "0 \<le> \<lfloor>y\<rfloor>" using assms by simp
  then show ?thesis
    by (simp add: round_half_even_def Let_def)
qed

text \<open>Evaluation of a rounding from its exponent and its rounded significand.\<close>

lemma to_double_eq:
  assumes "0 < x" and "2 powi e \<le> x" and "x < 2 powi (e + 1)"
    and "- 1022 \<le> e" and "e < 1024"
    and "round_half_even (x / 2 powi (e - 52)) = m"
    and "of_int m * 2 powi (e - 52) = y" and "y < 2 powi 1024"
  shows "to_double x = Some y"
proof -
  have e: "binary_exponent \<bar>x\<bar> = e"
    using assms by (intro binary_exponent_eq) simp_all
  have "0 \<le> x / 2 powi (e - 52)"
    using assms(1) by simp
  then have "0 \<le> m"
    using round_half_even_nonneg assms(6) by blast
  then have "0 \<le> y"
    using assms(7) by auto
  then have "\<bar>y\<bar> < 2 powi 1024"
    using assms(8) by simp
  moreover have "sgn x * of_int (round_half_even (\<bar>x\<bar> / 2 powi (e - 52))) * 2 powi (e - 52) = y"
    using assms(1,6,7) by simp
  moreover have "max (binary_exponent \<bar>x\<bar>) (- 1022) = e"
    using e assms(4) by simp
  ultimately show ?thesis
    unfolding to_double_def Let_def by (simp only: if_True)
qed

text \<open>In the normal range a rounding returns, with a relative error of at most 2^-53.\<close>

lemma to_double_normal:
  assumes "0 < x" and "2 powi (- 1022) \<le> x" and "x < 2 powi 1023"
  shows "\<exists>y. to_double x = Some y \<and> \<bar>y - x\<bar> \<le> x / 2 ^ 53"
proof -
  define e where "e = binary_exponent x"
  have "(2::real) powi (- 2048) \<le> 2 powi (- 1022)"
    by (intro power_int_increasing) simp_all
  with assms(2) have lo: "2 powi (- 2048) \<le> x" by linarith
  have "(2::real) powi 1023 \<le> 2 powi 2048"
    by (intro power_int_increasing) simp_all
  with assms(3) have hi: "x < 2 powi 2048" by linarith
  from binary_exponent_bounds [OF lo hi]
  have e_lo: "2 powi e \<le> x" and e_hi: "x < 2 powi (e + 1)"
    by (simp_all add: e_def)
  have "(2::real) powi (- 1022) < 2 powi (e + 1)"
    using assms(2) e_hi by linarith
  then have e_min: "- 1022 \<le> e"
    using pow2_less_exponent by fastforce
  have "(2::real) powi e < 2 powi 1023"
    using assms(3) e_lo by linarith
  then have e_max: "e < 1023"
    using pow2_less_exponent by blast
  define ulp :: real where "ulp = 2 powi (e - 52)"
  define m where "m = round_half_even (x / ulp)"
  define y where "y = of_int m * ulp"
  have ulp_pos: "0 < ulp" by (simp add: ulp_def)
  have "\<bar>of_int m - x / ulp\<bar> \<le> 1 / 2"
    unfolding m_def by (rule round_half_even_error)
  then have "\<bar>of_int m - x / ulp\<bar> * ulp \<le> 1 / 2 * ulp"
    using ulp_pos by (intro mult_right_mono) simp_all
  moreover have "\<bar>of_int m - x / ulp\<bar> * ulp = \<bar>y - x\<bar>"
  proof -
    have "\<bar>of_int m - x / ulp\<bar> * ulp = \<bar>(of_int m - x / ulp) * ulp\<bar>"
      using ulp_pos by (simp add: abs_mult)
    also have "(of_int m - x / ulp) * ulp = y - x"
      using ulp_pos by (simp add: y_def field_simps)
    finally show ?thesis .
  qed
  ultimately have err: "\<bar>y - x\<bar> \<le> ulp / 2" by simp
  have ulp_half: "ulp / 2 = 2 powi e / 2 ^ 53"
  proof -
    have "(2::real) powi (e - 52) = 2 powi e / 2 powi 52"
      by (simp add: power_int_diff)
    then show ?thesis by (simp add: ulp_def)
  qed
  have "2 powi e / 2 ^ 53 \<le> x / (2 ^ 53 :: real)"
    using e_lo by (intro divide_right_mono) simp_all
  with err ulp_half have rel: "\<bar>y - x\<bar> \<le> x / 2 ^ 53" by linarith
  have "y \<le> x + x / 2 ^ 53"
    using rel by linarith
  also have "\<dots> < 2 * x"
    using assms(1) by simp
  also have "\<dots> < 2 * 2 powi 1023"
    using assms(3) by simp
  also have "\<dots> = 2 powi 1024"
    by simp
  finally have "y < 2 powi 1024" .
  have "to_double x = Some y"
    using assms(1) e_lo e_hi e_min e_max \<open>y < 2 powi 1024\<close>
    by (intro to_double_eq [where e = e and m = m]) (simp_all add: m_def y_def ulp_def)
  with rel show ?thesis by blast
qed

lemma to_double_zero: "to_double 0 = Some 0"
  by (simp add: to_double_def Let_def)

lemma to_double_minus: "to_double (- x) = map_option uminus (to_double x)"
  by (simp add: to_double_def Let_def)

lemma to_double_pos:
  assumes "1 / 2 ^ 1000 \<le> x" and "x \<le> 2 ^ 1000"
  shows "\<exists>y. to_double x = Some y \<and> x * (1 - 1 / 2 ^ 53) \<le> y \<and> y \<le> x * (1 + 1 / 2 ^ 53)"
proof -
  have "(0::real) < 1 / 2 ^ 1000" by simp
  with assms(1) have pos: "0 < x" by linarith
  have "(2::real) powi (- 1022) \<le> 2 powi (- 1000)"
    by (intro power_int_increasing) simp_all
  also have "(2::real) powi (- 1000) = 1 / 2 ^ 1000"
    by (simp add: power_int_minus_divide)
  finally have lo: "2 powi (- 1022) \<le> x"
    using assms(1) by linarith
  have "(2::real) powi 1000 < 2 powi 1023"
    by (intro power_int_strict_increasing) simp_all
  then have hi: "x < 2 powi 1023"
    using assms(2) by simp
  from to_double_normal [OF pos lo hi] obtain y
    where y: "to_double x = Some y" and err: "\<bar>y - x\<bar> \<le> x / 2 ^ 53"
    by blast
  from err have "x - x / 2 ^ 53 \<le> y" and "y \<le> x + x / 2 ^ 53"
    by linarith+
  then have "x * (1 - 1 / 2 ^ 53) \<le> y" and "y \<le> x * (1 + 1 / 2 ^ 53)"
    by (simp_all add: algebra_simps)
  with y show ?thesis by blast
qed

lemma double_factor_range:
  assumes "- 100 < p" and "p \<le> 100"
  shows "\<exists>f. double_factor p = Some f \<and> 1 / 256 \<le> f \<and> f \<le> 4"
proof -
  define x :: real where "x = of_int p / 100"
  have xr: "- 99 / 100 \<le> x" "x \<le> 1"
    using assms by (simp_all add: x_def)
  have "\<exists>a. to_double x = Some a \<and> - 995 / 1000 \<le> a \<and> a \<le> 1001 / 1000"
  proof -
    consider "p = 0" | "0 < p" | "p < 0" by linarith
    then show ?thesis
    proof cases
      case 1
      then show ?thesis by (simp add: x_def to_double_zero)
    next
      case 2
      then have "1 \<le> p" by simp
      then have "(1::real) \<le> of_int p" by simp
      then have "1 / 100 \<le> x" by (simp add: x_def)
      then have "1 / 2 ^ 1000 \<le> x" and "x \<le> 2 ^ 1000"
        using xr(2) by simp_all
      from to_double_pos [OF this] obtain a where "to_double x = Some a"
        and "x * (1 - 1 / 2 ^ 53) \<le> a" and "a \<le> x * (1 + 1 / 2 ^ 53)"
        by blast
      moreover from this \<open>1 / 100 \<le> x\<close> xr(2) have "- 995 / 1000 \<le> a \<and> a \<le> 1001 / 1000"
        by simp
      ultimately show ?thesis by blast
    next
      case 3
      then have "p \<le> - 1" by simp
      then have "of_int p \<le> (- 1::real)" by (metis of_int_le_iff of_int_minus of_int_1)
      then have "x \<le> - 1 / 100" by (simp add: x_def)
      then have "1 / 2 ^ 1000 \<le> - x" and "- x \<le> 2 ^ 1000"
        using xr(1) by simp_all
      from to_double_pos [OF this] obtain b where b: "to_double (- x) = Some b"
        and "(- x) * (1 - 1 / 2 ^ 53) \<le> b" and "b \<le> (- x) * (1 + 1 / 2 ^ 53)"
        by blast
      moreover from this \<open>x \<le> - 1 / 100\<close> xr(1) have "- 995 / 1000 \<le> - b \<and> - b \<le> 1001 / 1000"
        by simp
      moreover have "to_double x = Some (- b)"
        using to_double_minus [of "- x"] b by simp
      ultimately show ?thesis by blast
    qed
  qed
  then obtain a where a: "to_double x = Some a" and ar: "- 995 / 1000 \<le> a" "a \<le> 1001 / 1000"
    by blast
  from ar have "1 / 2 ^ 1000 \<le> 1 + a" and "1 + a \<le> 2 ^ 1000"
    by simp_all
  from to_double_pos [OF this] obtain f where f: "to_double (1 + a) = Some f"
    and "(1 + a) * (1 - 1 / 2 ^ 53) \<le> f" and "f \<le> (1 + a) * (1 + 1 / 2 ^ 53)"
    by blast
  moreover from this ar have "1 / 256 \<le> f \<and> f \<le> 4"
    by simp
  moreover have "double_factor p = Some f"
    using a f by (simp add: double_factor_def x_def)
  ultimately show ?thesis by blast
qed

lemma scaled_range:
  fixes b f :: real
  assumes "1 / 2 ^ 100 \<le> b" and "b \<le> 2 ^ 100" and "1 / 256 \<le> f" and "f \<le> 4"
  shows "1 / 2 ^ 1000 \<le> b * f" and "b * f \<le> 2 ^ 1000"
proof -
  have "(1 / 2 ^ 100) * (1 / 256) \<le> b * f"
    using assms by (intro mult_mono) simp_all
  moreover have "(1::real) / 2 ^ 1000 \<le> (1 / 2 ^ 100) * (1 / 256)"
    by simp
  ultimately show "1 / 2 ^ 1000 \<le> b * f" by linarith
  have "0 \<le> b" using assms(1) by (simp add: order_trans [of 0 "1 / 2 ^ 100"])
  then have "b * f \<le> 2 ^ 100 * 4"
    using assms by (intro mult_mono) simp_all
  moreover have "(2::real) ^ 100 * 4 \<le> 2 ^ 1000"
    by simp
  ultimately show "b * f \<le> 2 ^ 1000" by linarith
qed

text \<open>
  The six roundings of tab 5 at the default baseline (300, 100) with both sliders at 10:
  0.1, 1.1, 330, 110.00000000000001, 3 and 2.9999999999999996.
\<close>

lemma round_10_over_100: "to_double (10 / 100) = Some (3602879701896397 / 36028797018963968)"
  by (rule to_double_eq [where e = "- 4" and m = 7205759403792794])
     (simp_all add: round_half_even_def Let_def)

lemma round_1_plus_tenth: "to_double (1 + 3602879701896397 / 36028797018963968)
             = Some (2476979795053773 / 2251799813685248)"
  by (rule to_double_eq [where e = 0 and m = 4953959590107546])
     (simp_all add: round_half_even_def Let_def)

lemma round_new_ltv_default: "to_double (300 * (2476979795053773 / 2251799813685248)) = Some 330"
  by (rule to_double_eq [where e = 8 and m = 5805421394657280])
     (simp_all add: round_half_even_def Let_def)

lemma round_new_cac_default: "to_double (100 * (2476979795053773 / 2251799813685248))
             = Some (7740561859543041 / 70368744177664)"
  by (rule to_double_eq [where e = 6 and m = 7740561859543041])
     (simp_all add: round_half_even_def Let_def)

lemma round_current_ratio_default: "to_double (300 / 100) = Some 3"
  by (rule to_double_eq [where e = 1 and m = 6755399441055744])
     (simp_all add: round_half_even_def Let_def)

lemma round_new_ratio_default: "to_double (330 / (7740561859543041 / 70368744177664))
             = Some (6755399441055743 / 2251799813685248)"
  by (rule to_double_eq [where e = 1 and m = 6755399441055743])
     (simp_all add: round_half_even_def Let_def)

text \<open>
  At the default baseline (300, 100) with both sliders at 10 the program computes the
  current ratio 3 and the new ratio 6755399441055743 / 2^51 = 2.9999999999999996: the
  ratio is not preserved.
\<close>

theorem double_ratio_counterexample:
  "double_ratios 300 100 10 10
     = Inr (Some (3, 6755399441055743 / 2251799813685248))
   \<and> (6755399441055743 / 2251799813685248 :: real) \<noteq> 3"
proof -
  have f: "double_factor 10 = Some (2476979795053773 / 2251799813685248)"
    using round_10_over_100 round_1_plus_tenth by (simp add: double_factor_def)
  have nl: "double_new_ltv 300 10 = Some 330"
    using round_new_ltv_default by (simp add: double_new_ltv_def f)
  have nc: "double_new_cac 100 10 = Some (7740561859543041 / 70368744177664)"
    using round_new_cac_default by (simp add: double_new_cac_def f)
  have cur: "double_current_ratio 300 100 = Inr (Some 3)"
    using round_current_ratio_default by (simp add: double_current_ratio_def double_truediv_def)
  have new: "double_new_ratio 330 (7740561859543041 / 70368744177664)
      = Inr (Some (6755399441055743 / 2251799813685248))"
    using round_new_ratio_default by (simp add: double_new_ratio_def double_truediv_def)
  show ?thesis
    by (simp add: double_ratios_def nl nc cur new)
qed

text \<open>
  C10, as the code has it. When both sliders carry the same percentage p, an int with
  -100 < p \<le> 100, and the baseline has cac between 2^(-100) and 2^100 and ltv either 0
  or in the same range, tab 5 returns both ratios, neither an error nor an infinity, and
  the new ratio equals the current one up to rounding: they differ by at most the
  current ratio times 2^(-50).
\<close>

theorem same_delta_ratio_within_rounding:
  assumes c: "1 / 2 ^ 100 \<le> c" "c \<le> 2 ^ 100"
    and l: "l = 0 \<or> (1 / 2 ^ 100 \<le> l \<and> l \<le> 2 ^ 100)"
    and p: "- 100 < p" "p \<le> 100"
  shows "\<exists>cur new. double_ratios l c p p = Inr (Some (cur, new))
           \<and> \<bar>new - cur\<bar> \<le> cur / 2 ^ 50"
proof -
  have cpos: "0 < c"
    using c(1) by (simp add: less_le_trans [of 0 "1 / 2 ^ 100"])
  from double_factor_range [OF p] obtain f
    where f: "double_factor p = Some f" and fr: "1 / 256 \<le> f" "f \<le> 4"
    by blast
  have fpos: "0 < f" using fr(1) by simp
  from to_double_pos [OF scaled_range [OF c fr]] obtain nc
    where nc: "to_double (c * f) = Some nc"
      and nc_lo: "c * f * (1 - 1 / 2 ^ 53) \<le> nc" and nc_hi: "nc \<le> c * f * (1 + 1 / 2 ^ 53)"
    by blast
  have cf_pos: "0 < c * f" using cpos fpos by simp
  have "0 < c * f * (1 - 1 / 2 ^ 53)"
    using cf_pos by simp
  with nc_lo have nc_pos: "0 < nc" by linarith
  have new_cac: "double_new_cac c p = Some nc"
    by (simp add: double_new_cac_def f nc)
  from l show ?thesis
  proof
    assume "l = 0"
    then have "double_new_ltv l p = Some 0"
      by (simp add: double_new_ltv_def f to_double_zero)
    moreover have "double_current_ratio l c = Inr (Some 0)"
      using cpos \<open>l = 0\<close> by (simp add: double_current_ratio_def double_truediv_def to_double_zero)
    moreover have "double_new_ratio 0 nc = Inr (Some 0)"
      using nc_pos by (simp add: double_new_ratio_def double_truediv_def to_double_zero)
    ultimately have "double_ratios l c p p = Inr (Some (0, 0))"
      by (simp add: double_ratios_def new_cac)
    then show ?thesis by simp
  next
    assume lr: "1 / 2 ^ 100 \<le> l \<and> l \<le> 2 ^ 100"
    then have lpos: "0 < l"
      by (simp add: less_le_trans [of 0 "1 / 2 ^ 100"])
    from lr have l1: "1 / 2 ^ 100 \<le> l" and l2: "l \<le> 2 ^ 100" by simp_all
    from to_double_pos [OF scaled_range [OF l1 l2 fr]] obtain nl
      where nl: "to_double (l * f) = Some nl"
        and nl_lo: "l * f * (1 - 1 / 2 ^ 53) \<le> nl" and nl_hi: "nl \<le> l * f * (1 + 1 / 2 ^ 53)"
      by blast
    have lf_pos: "0 < l * f" using lpos fpos by simp
    have "0 < l * f * (1 - 1 / 2 ^ 53)"
      using lf_pos by simp
    with nl_lo have nl_pos: "0 < nl" by linarith
    have new_ltv: "double_new_ltv l p = Some nl"
      by (simp add: double_new_ltv_def f nl)
    define r where "r = l / c"
    have rpos: "0 < r" using lpos cpos by (simp add: r_def)
    have r_lo: "1 / 2 ^ 200 \<le> r"
    proof -
      have "(1 / 2 ^ 100) / 2 ^ 100 \<le> l / c"
        using l1 c(2) cpos by (intro frac_le) simp_all
      then show ?thesis by (simp add: r_def)
    qed
    have r_hi: "r \<le> 2 ^ 200"
    proof -
      have "l / c \<le> 2 ^ 100 / (1 / 2 ^ 100)"
        using l2 c(1) lpos by (intro frac_le) simp_all
      then show ?thesis by (simp add: r_def)
    qed
    have "1 / 2 ^ 1000 \<le> r" and "r \<le> 2 ^ 1000"
      using r_lo r_hi by simp_all
    from to_double_pos [OF this] obtain cur
      where cur: "to_double r = Some cur"
        and cur_lo: "r * (1 - 1 / 2 ^ 53) \<le> cur" and cur_hi: "cur \<le> r * (1 + 1 / 2 ^ 53)"
      by blast
    have current: "double_current_ratio l c = Inr (Some cur)"
      using cpos cur by (simp add: double_current_ratio_def double_truediv_def r_def)
    define q where "q = nl / nc"
    have q_hi: "q \<le> r * ((1 + 1 / 2 ^ 53) / (1 - 1 / 2 ^ 53))"
    proof -
      have "nl / nc \<le> (l * f * (1 + 1 / 2 ^ 53)) / (c * f * (1 - 1 / 2 ^ 53))"
        using nl_hi nc_lo nl_pos cf_pos by (intro frac_le) simp_all
      also have "\<dots> = r * ((1 + 1 / 2 ^ 53) / (1 - 1 / 2 ^ 53))"
        using fpos cpos by (simp add: r_def)
      finally show ?thesis by (simp add: q_def)
    qed
    have q_lo: "r * ((1 - 1 / 2 ^ 53) / (1 + 1 / 2 ^ 53)) \<le> q"
    proof -
      have "r * ((1 - 1 / 2 ^ 53) / (1 + 1 / 2 ^ 53))
          = (l * f * (1 - 1 / 2 ^ 53)) / (c * f * (1 + 1 / 2 ^ 53))"
        using fpos cpos by (simp add: r_def)
      also have "\<dots> \<le> nl / nc"
        using nl_lo nc_hi nc_pos lf_pos by (intro frac_le) simp_all
      finally show ?thesis by (simp only: q_def)
    qed
    have "1 / 2 ^ 1000 \<le> q" and "q \<le> 2 ^ 1000"
      using q_lo q_hi r_lo r_hi by simp_all
    from to_double_pos [OF this] obtain new
      where new: "to_double q = Some new"
        and new_lo: "q * (1 - 1 / 2 ^ 53) \<le> new" and new_hi: "new \<le> q * (1 + 1 / 2 ^ 53)"
      by blast
    have new_ratio: "double_new_ratio nl nc = Inr (Some new)"
      using nc_pos new by (simp add: double_new_ratio_def double_truediv_def q_def)
    have run: "double_ratios l c p p = Inr (Some (cur, new))"
      by (simp add: double_ratios_def new_ltv new_cac current new_ratio)
    have up: "new - cur \<le> cur / 2 ^ 50"
      using new_hi q_hi cur_lo rpos by simp
    have down: "cur - new \<le> cur / 2 ^ 50"
      using new_lo q_lo cur_hi rpos by simp
    from up down have "\<bar>new - cur\<bar> \<le> cur / 2 ^ 50"
      by (simp only: abs_le_iff minus_diff_eq)
    with run show ?thesis by blast
  qed
qed

theorem same_delta_ratio_within_rounding_witness:
  "(\<exists>cur new. double_ratios 300 100 10 10 = Inr (Some (cur, new))
        \<and> \<bar>new - cur\<bar> \<le> cur / 2 ^ 50)
   \<and> (\<exists>cur new. double_ratios 0 100 10 10 = Inr (Some (cur, new))
        \<and> \<bar>new - cur\<bar> \<le> cur / 2 ^ 50)"
proof -
  have c: "(1::real) / 2 ^ 100 \<le> 100" "(100::real) \<le> 2 ^ 100"
    by simp_all
  have l: "(300::real) = 0 \<or> (1 / 2 ^ 100 \<le> (300::real) \<and> (300::real) \<le> 2 ^ 100)"
    by simp
  have l0: "(0::real) = 0 \<or> (1 / 2 ^ 100 \<le> (0::real) \<and> (0::real) \<le> 2 ^ 100)"
    by simp
  have p: "- 100 < (10::int)" "(10::int) \<le> 100"
    by simp_all
  from same_delta_ratio_within_rounding [OF c l p]
    same_delta_ratio_within_rounding [OF c l0 p]
  show ?thesis by blast
qed

section \<open>Runs of the scripts and the session state\<close>

text \<open>
  A run of \<^verbatim>\<open>calculator.py\<close> writes both baselines before tab 5 and the footer read
  them, so what these read never comes from an earlier run.
\<close>

lemma footer_eq:
  assumes "s ''base_ltv'' = Some l" and "s ''base_cac'' = Some c"
  shows "footer s = Inr (Some (if 0 < c then l / c else 0,
                               footer_status (if 0 < c then l / c else 0)))"
  unfolding footer_def session_get_def by (simp add: assms ratio_eq)

lemma init_session_idem: "init_session (init_session s) = init_session s"
  by (simp add: init_session_def Let_def)

lemma init_session_other:
  assumes "k \<noteq> ''base_ltv''" and "k \<noteq> ''base_cac''"
  shows "init_session s k = s k"
  using assms by (simp add: init_session_def Let_def)

lemma init_session_stored:
  "init_session (s(''base_ltv'' \<mapsto> l, ''base_cac'' \<mapsto> c))
     = s(''base_ltv'' \<mapsto> l, ''base_cac'' \<mapsto> c)"
  by (simp add: init_session_def Let_def)

lemma scenario_planning_stored:
  "\<exists>sc. \<forall>s. scenario_planning (s(''base_ltv'' \<mapsto> l, ''base_cac'' \<mapsto> c)) p q = Inr sc"
proof -
  have "scenario_planning (s(''base_ltv'' \<mapsto> l, ''base_cac'' \<mapsto> c)) p q =
     Inr \<lparr>sc_new_ltv = new_ltv l p, sc_new_cac = new_cac c q,
          sc_current_ratio = (if 0 < c then l / c else 0),
          sc_new_ratio = (if 0 < new_cac c q then new_ltv l p / new_cac c q else 0),
          sc_ratio_change =
            (if 0 < (if 0 < c then l / c else 0)
             then Number (((if 0 < new_cac c q then new_ltv l p / new_cac c q else 0)
                           / (if 0 < c then l / c else 0) - 1) * 100)
             else NotAvailable)\<rparr>" for s
    by (rule scenario_planning_eq) simp_all
  then show ?thesis by blast
qed

lemma footer_stored:
  "\<exists>ft. \<forall>s. footer (s(''base_ltv'' \<mapsto> l, ''base_cac'' \<mapsto> c)) = Inr ft"
proof -
  have "footer (s(''base_ltv'' \<mapsto> l, ''base_cac'' \<mapsto> c))
      = Inr (Some (if 0 < c then l / c else 0, footer_status (if 0 < c then l / c else 0)))"
    for s
    by (rule footer_eq) simp_all
  then show ?thesis by blast
qed

lemma churn_rate_returns: "\<exists>rate. churn_rate m start x = Inr rate"
  by (cases m) (simp_all add: truediv_def)

lemma average_customer_lifespan_returns: "\<exists>years. average_customer_lifespan rate = Inr years"
  by (simp add: average_customer_lifespan_def truediv_def)

lemma tab3_returns: "\<exists>rate annual years. tab3 w = Inr (rate, annual, years)"
proof -
  obtain rate where rate:
    "churn_rate (w_churn_method w) (w_start_customers w) (w_lost_or_end_customers w) = Inr rate"
    using churn_rate_returns by blast
  obtain years where "average_customer_lifespan rate = Inr years"
    using average_customer_lifespan_returns by blast
  with rate have "tab3 w = Inr (rate, annual_churn_rate rate, years)"
    by (simp add: tab3_def)
  then show ?thesis by blast
qed

lemma script_run_raises:
  assumes "customer_lifespan (w_lifespan w) = Inl e"
  shows "script_run w s = (init_session s, Inl e)"
  by (simp add: script_run_def tab1_def assms)

lemma stored_twice:
  "(s(''base_ltv'' \<mapsto> l, ''base_cac'' \<mapsto> c))(''base_ltv'' \<mapsto> l, ''base_cac'' \<mapsto> c)
     = s(''base_ltv'' \<mapsto> l, ''base_cac'' \<mapsto> c)"
  by (rule ext) simp

lemma script_run_returns:
  assumes life: "customer_lifespan (w_lifespan w) = Inr lifespan"
  shows "\<exists>out. \<forall>s. script_run w s
           = ((init_session s)(''base_ltv'' \<mapsto> r_ltv out, ''base_cac'' \<mapsto> r_cac out), Inr out)"
proof -
  define l where "l = ltv (w_avg_purchase w) (w_purchase_freq w) lifespan"
  obtain c where c: "cac (w_marketing_spend w) (w_new_customers w) = Inr c"
    using cac_eq by blast
  let ?p = "w_purchase_value_change w" and ?q = "w_cac_reduction w"
  obtain rate annual years where t3: "tab3 w = Inr (rate, annual, years)"
    using tab3_returns by blast
  obtain sc where sc:
    "\<And>s. scenario_planning (s(''base_ltv'' \<mapsto> l, ''base_cac'' \<mapsto> c)) ?p ?q = Inr sc"
    using scenario_planning_stored [of l c ?p ?q] by blast
  obtain ft where ft: "\<And>s. footer (s(''base_ltv'' \<mapsto> l, ''base_cac'' \<mapsto> c)) = Inr ft"
    using footer_stored [of l c] by blast
  have t1: "tab1 w s = (s(''base_ltv'' \<mapsto> l), Inr l)" for s
    by (simp add: tab1_def life l_def Let_def)
  have t2: "tab2 w s = (s(''base_cac'' \<mapsto> c), Inr c)" for s
    by (simp add: tab2_def c)
  let ?out = "\<lparr>r_ltv = l, r_cac = c, r_churn_rate = rate, r_annual_churn_rate = annual,
               r_average_customer_lifespan = years, r_scenario = sc, r_footer = ft\<rparr>"
  have "script_run w s
      = ((init_session s)(''base_ltv'' \<mapsto> l, ''base_cac'' \<mapsto> c), Inr ?out)" for s
    unfolding script_run_def Let_def by (simp only: t1 t2 t3 sc ft prod.case sum.case)
  moreover have "r_ltv ?out = l" and "r_cac ?out = c"
    by simp_all
  ultimately have "\<forall>s. script_run w s
      = ((init_session s)(''base_ltv'' \<mapsto> r_ltv ?out, ''base_cac'' \<mapsto> r_cac ?out), Inr ?out)"
    by simp
  then show ?thesis ..
qed

lemma app_run_state: "fst (app_run a s) = s"
  by (simp add: app_run_def Let_def split: sum.splits)

lemma app_run_result: "snd (app_run a s) = snd (app_run a s')"
  by (simp add: app_run_def Let_def split: sum.splits)

text \<open>
  Two concrete runs from a session state that an earlier run left: with the default
  inputs, and with the churn rate 0 in tab 1, where the run stops at the division.
\<close>

lemma script_run_defaults:
  "snd (script_run
          \<lparr>w_avg_purchase = 50, w_purchase_freq = 2, w_lifespan = Lifespan_Years 3,
           w_marketing_spend = 5000, w_new_customers = 50,
           w_churn_method = Lost_Customers, w_start_customers = 1000,
           w_lost_or_end_customers = 50,
           w_purchase_value_change = 10, w_cac_reduction = - 10\<rparr>
          [''base_ltv'' \<mapsto> 7, ''base_cac'' \<mapsto> 9])
   = Inr \<lparr>r_ltv = 300, r_cac = 100,
          r_churn_rate = 1 / 20, r_annual_churn_rate = 1 - (19 / 20) ^ 12,
          r_average_customer_lifespan = Number (5 / 3),
          r_scenario = \<lparr>sc_new_ltv = 330, sc_new_cac = 90, sc_current_ratio = 3,
                         sc_new_ratio = 11 / 3, sc_ratio_change = Number (200 / 9)\<rparr>,
          r_footer = Some (3, Healthy)\<rparr>"
  by (simp add: script_run_def init_session_def tab1_def tab2_def tab3_def ltv_def cac_eq
      truediv_def average_customer_lifespan_def annual_churn_rate_def
      scenario_planning_def session_get_def new_ltv_def new_cac_def current_ratio_eq
      new_ratio_eq ratio_change_eq footer_def ratio_eq footer_status_def Let_def)

lemma script_run_zero_churn:
  "script_run
     \<lparr>w_avg_purchase = 50, w_purchase_freq = 2, w_lifespan = Churn_Rate_Pct 0,
      w_marketing_spend = 5000, w_new_customers = 50,
      w_churn_method = Lost_Customers, w_start_customers = 1000,
      w_lost_or_end_customers = 50,
      w_purchase_value_change = 10, w_cac_reduction = - 10\<rparr>
     [''base_ltv'' \<mapsto> 7, ''base_cac'' \<mapsto> 9]
   = ([''base_ltv'' \<mapsto> 7, ''base_cac'' \<mapsto> 9], Inl ZeroDivisionError)"
  by (simp add: script_run_def init_session_def tab1_def truediv_def Let_def)

text \<open>
  The run of \<^verbatim>\<open>calculator.py\<close> is not free of side effects: computing the lifetime value
  stores it. From a session state with \<^verbatim>\<open>base_ltv\<close> = 7, a run with the default inputs
  leaves \<^verbatim>\<open>base_ltv\<close> = 300.
\<close>

theorem script_run_writes_session_counterexample:
  "[''base_ltv'' \<mapsto> 7, ''base_cac'' \<mapsto> (9::real)] ''base_ltv'' = Some 7
   \<and> fst (script_run
          \<lparr>w_avg_purchase = 50, w_purchase_freq = 2, w_lifespan = Lifespan_Years 3,
           w_marketing_spend = 5000, w_new_customers = 50,
           w_churn_method = Lost_Customers, w_start_customers = 1000,
           w_lost_or_end_customers = 50,
           w_purchase_value_change = 10, w_cac_reduction = - 10\<rparr>
          [''base_ltv'' \<mapsto> 7, ''base_cac'' \<mapsto> 9]) ''base_ltv'' = Some 300"
  by (simp add: script_run_def init_session_def tab1_def tab2_def tab3_def ltv_def cac_eq
      truediv_def average_customer_lifespan_def annual_churn_rate_def
      scenario_planning_def session_get_def new_ltv_def new_cac_def current_ratio_eq
      new_ratio_eq ratio_change_eq footer_def ratio_eq footer_status_def Let_def)

text \<open>
  C9, as the code has it. Every computation is deterministic, and no hidden state reaches
  a result: for the same widget values a run of \<^verbatim>\<open>calculator.py\<close> (lifetime value,
  acquisition cost, churn rate, annual churn rate, scenario, ratio and its tier) renders
  the same from any session state, a second run after the first renders the same again
  and leaves the session state as the first left it, and a run of \<^verbatim>\<open>app.py\<close>
  (\<^verbatim>\<open>calculate_ltv\<close>, the ratio, the payback period, the recommendations) renders the
  same from any session state and leaves it untouched. The run of \<^verbatim>\<open>calculator.py\<close> is
  not free of side effects: it stores the lifetime value and the acquisition cost it
  rendered under \<^verbatim>\<open>base_ltv\<close> and \<^verbatim>\<open>base_cac\<close>, and changes no other key.
\<close>

theorem runs_depend_on_widgets_only:
  "snd (script_run w s) = snd (script_run w s')
   \<and> snd (script_run w (fst (script_run w s))) = snd (script_run w s)
   \<and> fst (script_run w (fst (script_run w s))) = fst (script_run w s)
   \<and> (k \<noteq> ''base_ltv'' \<and> k \<noteq> ''base_cac'' \<longrightarrow> fst (script_run w s) k = s k)
   \<and> (\<forall>out. snd (script_run w s) = Inr out \<longrightarrow>
         fst (script_run w s) ''base_ltv'' = Some (r_ltv out)
         \<and> fst (script_run w s) ''base_cac'' = Some (r_cac out))
   \<and> fst (app_run a s) = s
   \<and> snd (app_run a s) = snd (app_run a s')"
proof (cases "customer_lifespan (w_lifespan w)")
  case (Inl e)
  have run: "script_run w t = (init_session t, Inl e)" for t
    by (rule script_run_raises [OF Inl])
  have "k \<noteq> ''base_ltv'' \<and> k \<noteq> ''base_cac'' \<longrightarrow> fst (script_run w s) k = s k"
    by (simp add: run init_session_other)
  moreover have "snd (script_run w s) = snd (script_run w s')"
    and "snd (script_run w (fst (script_run w s))) = snd (script_run w s)"
    and "fst (script_run w (fst (script_run w s))) = fst (script_run w s)"
    and "\<forall>out. snd (script_run w s) = Inr out \<longrightarrow>
         fst (script_run w s) ''base_ltv'' = Some (r_ltv out)
         \<and> fst (script_run w s) ''base_cac'' = Some (r_cac out)"
    by (simp_all add: run init_session_idem)
  ultimately show ?thesis
    using app_run_state [of a s] app_run_result [of a s s'] by blast
next
  case (Inr lifespan)
  from script_run_returns [OF Inr] obtain out
    where run: "\<And>t. script_run w t
        = ((init_session t)(''base_ltv'' \<mapsto> r_ltv out, ''base_cac'' \<mapsto> r_cac out), Inr out)"
    by blast
  have "k \<noteq> ''base_ltv'' \<and> k \<noteq> ''base_cac'' \<longrightarrow> fst (script_run w s) k = s k"
    by (simp add: run init_session_other)
  moreover have "snd (script_run w s) = snd (script_run w s')"
    and "snd (script_run w (fst (script_run w s))) = snd (script_run w s)"
    and "fst (script_run w (fst (script_run w s))) = fst (script_run w s)"
    by (simp_all only: run fst_conv snd_conv init_session_stored stored_twice)
  moreover have "\<forall>out'. snd (script_run w s) = Inr out' \<longrightarrow>
         fst (script_run w s) ''base_ltv'' = Some (r_ltv out')
         \<and> fst (script_run w s) ''base_cac'' = Some (r_cac out')"
    by (simp add: run)
  ultimately show ?thesis
    using app_run_state [of a s] app_run_result [of a s s'] by blast
qed

theorem runs_depend_on_widgets_only_witness:
  "snd (script_run
          \<lparr>w_avg_purchase = 50, w_purchase_freq = 2, w_lifespan = Lifespan_Years 3,
           w_marketing_spend = 5000, w_new_customers = 50,
           w_churn_method = Lost_Customers, w_start_customers = 1000,
           w_lost_or_end_customers = 50,
           w_purchase_value_change = 10, w_cac_reduction = - 10\<rparr>
          [''base_ltv'' \<mapsto> 7, ''base_cac'' \<mapsto> 9])
   = snd (script_run
          \<lparr>w_avg_purchase = 50, w_purchase_freq = 2, w_lifespan = Lifespan_Years 3,
           w_marketing_spend = 5000, w_new_customers = 50,
           w_churn_method = Lost_Customers, w_start_customers = 1000,
           w_lost_or_end_customers = 50,
           w_purchase_value_change = 10, w_cac_reduction = - 10\<rparr>
          Map.empty)
   \<and> fst (script_run
          \<lparr>w_avg_purchase = 50, w_purchase_freq = 2, w_lifespan = Lifespan_Years 3,
           w_marketing_spend = 5000, w_new_customers = 50,
           w_churn_method = Lost_Customers, w_start_customers = 1000,
           w_lost_or_end_customers = 50,
           w_purchase_value_change = 10, w_cac_reduction = - 10\<rparr>
          [''base_ltv'' \<mapsto> 7, ''base_cac'' \<mapsto> 9]) ''theme''
     = [''base_ltv'' \<mapsto> 7, ''base_cac'' \<mapsto> (9::real)] ''theme''
   \<and> fst (app_run \<lparr>a_arpu = 100, a_churn_rate_pct = 5, a_gross_margin_pct = 70, a_cac = 200\<rparr>
          [''base_ltv'' \<mapsto> 7, ''base_cac'' \<mapsto> 9])
     = [''base_ltv'' \<mapsto> 7, ''base_cac'' \<mapsto> 9]"
proof -
  let ?w = "\<lparr>w_avg_purchase = 50, w_purchase_freq = 2, w_lifespan = Lifespan_Years 3,
           w_marketing_spend = 5000, w_new_customers = 50,
           w_churn_method = Lost_Customers, w_start_customers = 1000,
           w_lost_or_end_customers = 50,
           w_purchase_value_change = 10, w_cac_reduction = - 10\<rparr>"
  let ?s = "[''base_ltv'' \<mapsto> 7, ''base_cac'' \<mapsto> (9::real)]"
  let ?a = "\<lparr>a_arpu = 100, a_churn_rate_pct = 5, a_gross_margin_pct = 70, a_cac = 200\<rparr>"
  have key: "''theme'' \<noteq> ''base_ltv'' \<and> ''theme'' \<noteq> ''base_cac''"
    by simp
  from runs_depend_on_widgets_only [of ?w ?s Map.empty "''theme''" ?a] key
  show ?thesis by blast
qed

end
